theory Spec2Isabelle
  imports Complex_Main
begin

section \<open>Navigation screen of MapboxRouteMapDemo\<close>

text \<open>
  The development embeds the controller logic of \<^verbatim>\<open>src/screen/MapScreen.tsx\<close>
  (component \<^verbatim>\<open>NavigationApp\<close>). A JavaScript number is the real number that the
  double stands for, and every arithmetic operation rounds its exact result to the
  nearest double; a number that may be NaN is a \<open>real option\<close> with \<open>None\<close> for NaN.
  Overflow to an infinity is outside the model, and the numbers that enter it
  (coordinates, distances and durations of a response) are taken to be doubles.
  Strings are character lists.
\<close>

subsection \<open>Double arithmetic\<close>

text \<open>Rounding to the nearest integer, a tie to the even one.\<close>

definition roundEven :: "real \<Rightarrow> int" where
  "roundEven y =
     (let f = \<lfloor>y\<rfloor>; d = y - of_int f
      in if d < 1 / 2 then f else if 1 / 2 < d then f + 1 else if even f then f else f + 1)"

definition pow2 :: "int \<Rightarrow> real" where
  "pow2 k = (if 0 \<le> k then 2 ^ nat k else 1 / 2 ^ nat (- k))"

text \<open>Rounding of a real number to the nearest binary64 value: 53 significant bits at
  the exponent \<open>e\<close> of the number, and the fixed spacing of the subnormal numbers below
  exponent \<open>-1022\<close>.\<close>

definition fl :: "real \<Rightarrow> real" where
  "fl x =
     (if x = 0 then 0
      else let e = max \<lfloor>log 2 \<bar>x\<bar>\<rfloor> (- 1022);
               u = pow2 (e - 52)
           in of_int (roundEven (x / u)) * u)"

text \<open>The four operators on doubles, as IEEE 754 defines them: the exact result,
  rounded. All divisions of the component are by a non-zero literal.\<close>

definition fadd :: "real \<Rightarrow> real \<Rightarrow> real" where
  "fadd x y = fl (x + y)"

definition fsub :: "real \<Rightarrow> real \<Rightarrow> real" where
  "fsub x y = fl (x - y)"

definition fmul :: "real \<Rightarrow> real \<Rightarrow> real" where
  "fmul x y = fl (x * y)"

definition fdiv :: "real \<Rightarrow> real \<Rightarrow> real" where
  "fdiv x y = fl (x / y)"

text \<open>\<^verbatim>\<open>x < y\<close> and \<^verbatim>\<open>x == y\<close> where \<open>x\<close> may be NaN: both are false on NaN.\<close>

definition jsLess :: "real option \<Rightarrow> real \<Rightarrow> bool" where
  "jsLess x y = (case x of None \<Rightarrow> False | Some v \<Rightarrow> v < y)"

definition jsEquals :: "real option \<Rightarrow> real option \<Rightarrow> bool" where
  "jsEquals x y = (case (x, y) of (Some v, Some w) \<Rightarrow> v = w | _ \<Rightarrow> False)"

subsection \<open>Library functions of the JavaScript runtime\<close>

text \<open>Decimal rendering of a non-negative integer, as \<^verbatim>\<open>Number.prototype.toString\<close>
  gives it for integral values below \<open>10\<^sup>2\<^sup>1\<close>.\<close>

definition digitChar :: "nat \<Rightarrow> char" where
  "digitChar d = ''0123456789'' ! d"

function natToString :: "nat \<Rightarrow> string" where
  "natToString n =
     (if n < 10 then [digitChar n] else natToString (n div 10) @ [digitChar (n mod 10)])"
  by pat_completeness auto
termination
  by (relation "measure (\<lambda>n. n)") auto

declare natToString.simps [simp del]

definition intToString :: "int \<Rightarrow> string" where
  "intToString i = (if i < 0 then ''-'' @ natToString (nat (- i)) else natToString (nat i))"

text \<open>\<^verbatim>\<open>s.padStart(2, '0')\<close>: zeros are put in front until the length is two; a longer
  string is returned as it is.\<close>

definition padStart2 :: "string \<Rightarrow> string" where
  "padStart2 s = replicate (2 - length s) (CHR ''0'') @ s"

text \<open>\<^verbatim>\<open>Math.round\<close> gives the nearest integer, a half upwards; \<^verbatim>\<open>x % y\<close> is the
  remainder of the division truncated towards zero. Both are exact on doubles.\<close>

definition mathRound :: "real \<Rightarrow> int" where
  "mathRound x = \<lfloor>x + 1 / 2\<rfloor>"

definition jsTrunc :: "real \<Rightarrow> int" where
  "jsTrunc x = (if x < 0 then \<lceil>x\<rceil> else \<lfloor>x\<rfloor>)"

definition jsRem :: "real \<Rightarrow> real \<Rightarrow> real" where
  "jsRem x y = x - y * of_int (jsTrunc (x / y))"

text \<open>\<^verbatim>\<open>x.toFixed(1)\<close>: the sign, then the integer \<open>n\<close> nearest to \<open>10 * |x|\<close> (the
  larger one of two nearest), written with a point before its last digit; \<open>x\<close> is the
  exact value of the double, so the digit depends on how the double was rounded when it
  was computed. Magnitudes from \<open>10\<^sup>2\<^sup>1\<close> on, where JavaScript switches to exponent
  notation, are outside the range of route lengths and are rendered here in the same
  positional way.\<close>

definition toFixed1 :: "real \<Rightarrow> string" where
  "toFixed1 x =
     (let s = (if x < 0 then ''-'' else '''');
          n = nat \<lfloor>\<bar>x\<bar> * 10 + 1 / 2\<rfloor>
      in s @ natToString (n div 10) @ ''.'' @ natToString (n mod 10))"

text \<open>The angle of the point \<open>(x, y)\<close>, which \<^verbatim>\<open>Math.atan2(y, x)\<close> approximates.\<close>

definition atan2 :: "real \<Rightarrow> real \<Rightarrow> real" where
  "atan2 y x =
     (if 0 < x then arctan (y / x)
      else if x < 0 \<and> 0 \<le> y then arctan (y / x) + pi
      else if x < 0 then arctan (y / x) - pi
      else if 0 < y then pi / 2
      else if y < 0 then - (pi / 2)
      else 0)"

text \<open>\<^verbatim>\<open>Math.PI\<close> is the double nearest to \<open>\<pi>\<close>. \<^verbatim>\<open>Math.sqrt\<close> is the rounded root
  and NaN below zero. ECMAScript leaves the accuracy of \<^verbatim>\<open>Math.sin\<close>, \<^verbatim>\<open>Math.cos\<close>
  and \<^verbatim>\<open>Math.atan2\<close> to the engine; they are taken here as the rounded values of the
  functions they approximate.\<close>

definition mathPI :: real where
  "mathPI = 884279719003555 / 2 ^ 48"

definition mathSqrt :: "real \<Rightarrow> real option" where
  "mathSqrt x = (if x < 0 then None else Some (fl (sqrt x)))"

definition mathSin :: "real \<Rightarrow> real" where
  "mathSin x = fl (sin x)"

definition mathCos :: "real \<Rightarrow> real" where
  "mathCos x = fl (cos x)"

definition mathAtan2 :: "real \<Rightarrow> real \<Rightarrow> real" where
  "mathAtan2 y x = fl (atan2 y x)"

subsection \<open>Pure helpers of the component\<close>

type_synonym coord = "real \<times> real"

text \<open>\<^verbatim>\<open>formatDuration\<close> (MapScreen.tsx, lines 56-62).\<close>

definition formatDuration :: "real \<Rightarrow> string" where
  "formatDuration minutes =
     (let hours = \<lfloor>fdiv minutes 60\<rfloor>;
          mins = mathRound (jsRem minutes 60)
      in padStart2 (intToString hours) @ '':'' @ padStart2 (intToString mins))"

text \<open>\<^verbatim>\<open>calculateDistance\<close> (MapScreen.tsx, lines 270-286): the haversine distance in
  kilometres between two (longitude, latitude) pairs. The term \<open>a\<close> is its own
  function, \<open>haversineTerm\<close>; nothing keeps it from exceeding 1, and then
  \<^verbatim>\<open>Math.sqrt(1 - a)\<close> and the distance are NaN.\<close>

definition haversineTerm :: "coord \<Rightarrow> coord \<Rightarrow> real" where
  "haversineTerm coord1 coord2 =
     (let lon1 = fst coord1; lat1 = snd coord1;
          lon2 = fst coord2; lat2 = snd coord2;
          dLat = fmul (fsub lat2 lat1) (fdiv mathPI 180);
          dLon = fmul (fsub lon2 lon1) (fdiv mathPI 180)
      in fadd (fmul (mathSin (fdiv dLat 2)) (mathSin (fdiv dLat 2)))
           (fmul (fmul (fmul (mathCos (fmul lat1 (fdiv mathPI 180)))
                          (mathCos (fmul lat2 (fdiv mathPI 180))))
                    (mathSin (fdiv dLon 2)))
              (mathSin (fdiv dLon 2))))"

definition calculateDistance :: "coord \<Rightarrow> coord \<Rightarrow> real option" where
  "calculateDistance coord1 coord2 =
     (let R = 6371;
          a = haversineTerm coord1 coord2
      in case (mathSqrt a, mathSqrt (fsub 1 a)) of
           (Some p, Some q) \<Rightarrow> Some (fmul (fmul R (mathAtan2 p q)) 2)
         | _ \<Rightarrow> None)"

subsection \<open>Data\<close>

text \<open>A route step as the component reads it: \<^verbatim>\<open>maneuver.instruction\<close>,
  \<^verbatim>\<open>maneuver.location.coordinates\<close>, \<^verbatim>\<open>distance\<close> (metres) and \<^verbatim>\<open>duration\<close>
  (seconds).\<close>

record step =
  step_instruction :: string
  step_coordinates :: coord
  step_distance :: real
  step_duration :: real

text \<open>One element of \<^verbatim>\<open>data.routes\<close>; \<^verbatim>\<open>legs\<close> holds the step list of every leg.\<close>

record route_data =
  geometry :: "coord list"
  route_distance :: real
  route_duration :: real
  legs :: "step list list"

text \<open>One element of \<^verbatim>\<open>data.features\<close> of the geocoding response, and the suggestion
  built from it.\<close>

record feature =
  place_name :: string
  center :: coord

record suggestion =
  name :: string
  coords :: coord

text \<open>A settled \<^verbatim>\<open>fetch\<close>: the promise is rejected (network failure, or the body is
  not JSON), or the parsed body is there. The field the component reads from the body
  (\<^verbatim>\<open>routes\<close>, \<^verbatim>\<open>features\<close>) may be absent.\<close>

datatype 'a fetched = Rejected | Resolved "'a option"

text \<open>A settled \<^verbatim>\<open>GetLocation.getCurrentPosition\<close>: longitude, latitude and course, or
  an error whose message does or does not contain \<^verbatim>\<open>cancelled\<close>.\<close>

datatype position = Fix real real real | CancelledError | OtherError

datatype camera_cmd =
    SetCamera coord real nat nat
  | FitBounds coord coord nat nat

datatype request =
    DirectionsRequest coord coord
  | GeocodingRequest string
  | PositionRequest

datatype timer = Running | Cleared

datatype js_error = TypeError

record route_info =
  info_distance :: "string option"
  info_duration :: "string option"
  remainingDistance :: "string option"
  remainingDuration :: "string option"

text \<open>The \<^verbatim>\<open>useState\<close> cells and \<^verbatim>\<open>useRef\<close> cells of \<^verbatim>\<open>NavigationApp\<close>.
  \<open>cameraRef\<close> is \<open>None\<close> while no camera is attached and otherwise holds the
  commands sent to the camera so far; \<open>requests\<close>, \<open>console\<close> and \<open>uncaught\<close>
  record the requests issued, the lines logged and the errors no handler caught.\<close>

record nav_state =
  currentLocation :: "coord option"
  destination :: "coord option"
  route :: "coord list option"
  steps :: "step list"
  currentStepIndex :: int
  routeInfo :: route_info
  query :: string
  suggestions :: "suggestion list"
  isNavigating :: bool
  loading :: bool
  isMapInteracting :: bool
  currentHeading :: real
  cameraRef :: "camera_cmd list option"
  locationInterval :: "timer option"
  isMounted :: bool
  isLocationRequestPending :: bool
  requests :: "request list"
  console :: "string list"
  uncaught :: "js_error list"

definition noRouteInfo :: route_info where
  "noRouteInfo = \<lparr>info_distance = None, info_duration = None,
     remainingDistance = None, remainingDuration = None\<rparr>"

definition initial :: nav_state where
  "initial = \<lparr>currentLocation = None, destination = None, route = None, steps = [],
     currentStepIndex = 0, routeInfo = noRouteInfo, query = [], suggestions = [],
     isNavigating = False, loading = True, isMapInteracting = False, currentHeading = 0,
     cameraRef = None, locationInterval = None, isMounted = True,
     isLocationRequestPending = False, requests = [], console = [], uncaught = []\<rparr>"

definition sendCamera :: "camera_cmd \<Rightarrow> nav_state \<Rightarrow> nav_state" where
  "sendCamera c s =
     (case cameraRef s of None \<Rightarrow> s | Some cs \<Rightarrow> s\<lparr>cameraRef := Some (cs @ [c])\<rparr>)"

definition logLine :: "string \<Rightarrow> nav_state \<Rightarrow> nav_state" where
  "logLine l s = s\<lparr>console := console s @ [l]\<rparr>"

definition issue :: "request \<Rightarrow> nav_state \<Rightarrow> nav_state" where
  "issue q s = s\<lparr>requests := requests s @ [q]\<rparr>"

subsection \<open>Operations\<close>

text \<open>
  An \<^verbatim>\<open>async\<close> function is split at its \<^verbatim>\<open>await\<close>: the part that runs when it is
  called, and the continuation (suffix \<open>_then\<close>) that runs when the awaited promise
  settles, with the settled value as an argument. Anything may happen between the two.

  A callback reads the \<^verbatim>\<open>useState\<close> values of the render that created it, not the
  values it has just set. Where a callback reads a value that the same event has set
  before, the render it reads from is the separate argument \<open>r\<close>; refs
  (\<^verbatim>\<open>isMounted\<close>, \<^verbatim>\<open>cameraRef\<close>, \<^verbatim>\<open>locationInterval\<close>) are read from the current
  state \<open>s\<close>, which also receives the updates.
\<close>

text \<open>\<^verbatim>\<open>fetchRoute\<close> (lines 64-99). The call returns at once without a start, an end or
  a mounted component. The continuation takes the \<^verbatim>\<open>isNavigating\<close> value of the closure
  and the settled response; \<^verbatim>\<open>routeData.legs[0].steps\<close> throws on a route without legs,
  after \<^verbatim>\<open>setRoute\<close> and \<^verbatim>\<open>setRouteInfo\<close> have run, and the \<^verbatim>\<open>catch\<close> logs it.\<close>

definition fetchRoute :: "coord option \<Rightarrow> coord option \<Rightarrow> nav_state \<Rightarrow> nav_state" where
  "fetchRoute start end s =
     (case (start, end) of
        (Some a, Some b) \<Rightarrow> if \<not> isMounted s then s else issue (DirectionsRequest a b) s
      | _ \<Rightarrow> s)"

definition fetchRoute_then ::
    "bool \<Rightarrow> coord \<Rightarrow> coord \<Rightarrow> route_data list fetched \<Rightarrow> nav_state \<Rightarrow> nav_state" where
  "fetchRoute_then navigating start end response s =
     (case response of
        Rejected \<Rightarrow> logLine ''Route fetch error:'' s
      | Resolved None \<Rightarrow> s
      | Resolved (Some []) \<Rightarrow> s
      | Resolved (Some (routeData # _)) \<Rightarrow>
          if \<not> isMounted s then s
          else
            let totalMinutes = fdiv (route_duration routeData) 60;
                s1 = s\<lparr>route := Some (geometry routeData)\<rparr>;
                s2 = s1\<lparr>routeInfo :=
                       \<lparr>info_distance = Some (toFixed1 (fdiv (route_distance routeData) 1000)),
                        info_duration = Some (formatDuration totalMinutes),
                        remainingDistance =
                          Some (toFixed1 (fdiv (route_distance routeData) 1000)),
                        remainingDuration = Some (formatDuration totalMinutes)\<rparr>\<rparr>
            in case legs routeData of
                 [] \<Rightarrow> logLine ''Route fetch error:'' s2
               | leg # _ \<Rightarrow>
                   let s3 = s2\<lparr>steps := leg\<rparr>
                   in if \<not> navigating
                      then sendCamera
                             (FitBounds (min (fst start) (fst end), min (snd start) (snd end))
                                (max (fst start) (fst end), max (snd start) (snd end)) 120 1000)
                             s3
                      else s3)"

text \<open>\<^verbatim>\<open>fetchSuggestions\<close> (lines 101-125).\<close>

definition fetchSuggestions :: "string \<Rightarrow> nav_state \<Rightarrow> nav_state" where
  "fetchSuggestions input s =
     (if input = [] \<or> \<not> isMounted s then s\<lparr>suggestions := []\<rparr>
      else issue (GeocodingRequest input) s)"

definition fetchSuggestions_then :: "feature list fetched \<Rightarrow> nav_state \<Rightarrow> nav_state" where
  "fetchSuggestions_then response s =
     (case response of
        Rejected \<Rightarrow> logLine ''Suggestions error:'' s
      | Resolved None \<Rightarrow> s
      | Resolved (Some features) \<Rightarrow>
          if isMounted s
          then s\<lparr>suggestions :=
                   map (\<lambda>f. \<lparr>name = place_name f, coords = center f\<rparr>) features\<rparr>
          else s)"

text \<open>\<^verbatim>\<open>getCurrentPositionSafe\<close> (lines 159-182): the call drops the request when one
  is pending; settling gives the location data or \<^verbatim>\<open>null\<close> and clears the flag.\<close>

definition getCurrentPositionSafe :: "nav_state \<Rightarrow> nav_state" where
  "getCurrentPositionSafe s =
     (if isLocationRequestPending s then s
      else issue PositionRequest (s\<lparr>isLocationRequestPending := True\<rparr>))"

definition getCurrentPositionSafe_then ::
    "position \<Rightarrow> nav_state \<Rightarrow> (coord \<times> real) option \<times> nav_state" where
  "getCurrentPositionSafe_then p s =
     (case p of
        Fix longitude latitude course \<Rightarrow>
          (Some ((longitude, latitude), if 0 \<le> course then course else 0),
           s\<lparr>isLocationRequestPending := False\<rparr>)
      | CancelledError \<Rightarrow>
          (None, (logLine ''Location request cancelled by another request'' s)
                   \<lparr>isLocationRequestPending := False\<rparr>)
      | OtherError \<Rightarrow>
          (None, (logLine ''Location error:'' s)\<lparr>isLocationRequestPending := False\<rparr>))"

text \<open>\<^verbatim>\<open>stopNavigation\<close> (lines 238-268).\<close>

definition stopNavigation :: "nav_state \<Rightarrow> nav_state" where
  "stopNavigation s =
     (if \<not> isMounted s then s
      else getCurrentPositionSafe
             (s\<lparr>isNavigating := False, currentStepIndex := 0, route := None, steps := [],
                routeInfo := noRouteInfo, locationInterval := None\<rparr>))"

definition stopNavigation_then :: "(coord \<times> real) option \<Rightarrow> nav_state \<Rightarrow> nav_state" where
  "stopNavigation_then locationData s =
     (case locationData of
        None \<Rightarrow> s
      | Some (cs, heading) \<Rightarrow>
          if isMounted s \<and> cameraRef s \<noteq> None
          then sendCamera (SetCamera cs heading 16 1000)
                 (s\<lparr>currentLocation := Some cs, currentHeading := heading\<rparr>)
          else s)"

text \<open>\<^verbatim>\<open>handleStepChange\<close> (lines 210-236).\<close>

definition handleStepChange :: "nav_state \<Rightarrow> int \<Rightarrow> nav_state \<Rightarrow> nav_state" where
  "handleStepChange r newIndex s =
     (if newIndex < 0 \<or> int (length (steps r)) \<le> newIndex \<or> currentLocation r = None \<or>
         cameraRef s = None
      then s
      else
        let s1 = s\<lparr>currentStepIndex := newIndex\<rparr>;
            stepCoords = step_coordinates (steps r ! nat newIndex);
            s2 = sendCamera (SetCamera stepCoords (currentHeading r) 18 1000) s1
        in fetchRoute (currentLocation r) (Some stepCoords) s2)"

text \<open>The loop of \<^verbatim>\<open>updateNavigation\<close> (lines 137-142), from index \<open>i\<close> with the two
  accumulators.\<close>

function remainingLoop :: "step list \<Rightarrow> nat \<Rightarrow> real \<Rightarrow> real \<Rightarrow> real \<times> real" where
  "remainingLoop ss i remDistance remDuration =
     (if i < length ss
      then remainingLoop ss (i + 1) (fadd remDistance (step_distance (ss ! i)))
             (fadd remDuration (step_duration (ss ! i)))
      else (remDistance, remDuration))"
  by pat_completeness auto
termination
  by (relation "measure (\<lambda>(ss, i, _, _). length ss - i)") auto

declare remainingLoop.simps [simp del]

text \<open>\<^verbatim>\<open>updateNavigation\<close> (lines 127-157). With an index outside the step list
  \<^verbatim>\<open>steps[currentStepIndex]\<close> is \<^verbatim>\<open>undefined\<close> and reading its \<^verbatim>\<open>maneuver\<close> throws.
  The literal \<^verbatim>\<open>0.03\<close> is the double nearest to it.\<close>

definition updateNavigation :: "nav_state \<Rightarrow> coord \<Rightarrow> nav_state \<Rightarrow> js_error + nav_state" where
  "updateNavigation r location s =
     (if steps r = [] \<or> cameraRef s = None \<or> \<not> isMounted s then Inr s
      else if currentStepIndex r < 0 \<or> int (length (steps r)) \<le> currentStepIndex r
      then Inl TypeError
      else
        let currentStep = steps r ! nat (currentStepIndex r);
            distanceToStep = calculateDistance location (step_coordinates currentStep);
            (remDistance, remDuration) = remainingLoop (steps r) (nat (currentStepIndex r)) 0 0;
            s1 = s\<lparr>routeInfo := (routeInfo s)
                   \<lparr>remainingDistance := Some (toFixed1 (fdiv remDistance 1000)),
                    remainingDuration := Some (formatDuration (fdiv remDuration 60))\<rparr>\<rparr>
        in if jsLess distanceToStep (fl (3 / 100)) \<and>
              currentStepIndex r < int (length (steps r)) - 1
           then Inr (handleStepChange r (currentStepIndex r + 1) s1)
           else if jsLess distanceToStep (fl (3 / 100)) then Inr (stopNavigation s1)
           else Inr s1)"

text \<open>\<^verbatim>\<open>startNavigationTracking\<close> (lines 184-208): the timer is replaced; the interval
  callback is \<open>tick\<close> up to its \<^verbatim>\<open>await\<close> and \<open>tick_then\<close> after it. An error thrown by
  \<^verbatim>\<open>updateNavigation\<close> ends the callback after the two setters and is caught nowhere.\<close>

definition startNavigationTracking :: "nav_state \<Rightarrow> nav_state" where
  "startNavigationTracking s = s\<lparr>locationInterval := Some Running\<rparr>"

definition tick :: "nav_state \<Rightarrow> nav_state" where
  "tick s = (if isMapInteracting s \<or> \<not> isMounted s then s else getCurrentPositionSafe s)"

definition tick_then :: "nav_state \<Rightarrow> (coord \<times> real) option \<Rightarrow> nav_state \<Rightarrow> nav_state" where
  "tick_then r locationData s =
     (case locationData of
        None \<Rightarrow> s
      | Some (cs, heading) \<Rightarrow>
          if isMounted s
          then
            let s1 = s\<lparr>currentLocation := Some cs, currentHeading := heading\<rparr>
            in case updateNavigation r cs s1 of
                 Inl e \<Rightarrow> s1\<lparr>uncaught := uncaught s1 @ [e]\<rparr>
               | Inr s2 \<Rightarrow> sendCamera (SetCamera cs heading 18 500) s2
          else s)"

text \<open>\<^verbatim>\<open>startNavigation\<close> (lines 288-299).\<close>

definition startNavigation :: "nav_state \<Rightarrow> nav_state" where
  "startNavigation s =
     (case (currentLocation s, destination s, cameraRef s) of
        (Some loc, Some _, Some _) \<Rightarrow>
          sendCamera (SetCamera loc (currentHeading s) 18 1000)
            (s\<lparr>isNavigating := True, currentStepIndex := 0\<rparr>)
      | _ \<Rightarrow> s)"

text \<open>\<^verbatim>\<open>getCurrentLocation\<close> (lines 338-345), the three effects (lines 301-336) with
  the cleanup of the first, and the handlers written inline in the view. The mount
  effect asks for the position at once or after the permission is granted; when the
  permission request fails, its \<^verbatim>\<open>catch\<close> only ends the loading state (event
  \<open>InitializeFailed\<close> below).\<close>

definition getCurrentLocation_then :: "(coord \<times> real) option \<Rightarrow> nav_state \<Rightarrow> nav_state" where
  "getCurrentLocation_then locationData s =
     (case locationData of
        None \<Rightarrow> s
      | Some (cs, heading) \<Rightarrow>
          if isMounted s
          then s\<lparr>currentLocation := Some cs, currentHeading := heading, loading := False\<rparr>
          else s)"

definition mountEffect :: "bool \<Rightarrow> nav_state \<Rightarrow> nav_state" where
  "mountEffect granted s =
     (let s1 = s\<lparr>isMounted := True\<rparr> in if granted then getCurrentPositionSafe s1 else s1)"

definition unmountCleanup :: "nav_state \<Rightarrow> nav_state" where
  "unmountCleanup s =
     (let s1 = s\<lparr>isMounted := False\<rparr>
      in case locationInterval s1 of None \<Rightarrow> s1 | Some _ \<Rightarrow> s1\<lparr>locationInterval := Some Cleared\<rparr>)"

definition routeEffect :: "nav_state \<Rightarrow> nav_state" where
  "routeEffect s =
     (if currentLocation s \<noteq> None \<and> destination s \<noteq> None
      then fetchRoute (currentLocation s) (destination s) s else s)"

definition trackingEffect :: "nav_state \<Rightarrow> nav_state" where
  "trackingEffect s =
     (if isNavigating s \<and> currentLocation s \<noteq> None \<and> destination s \<noteq> None
      then startNavigationTracking s else s)"

definition onChangeText :: "string \<Rightarrow> nav_state \<Rightarrow> nav_state" where
  "onChangeText text s = fetchSuggestions text (s\<lparr>query := text\<rparr>)"

definition onPressSuggestion :: "suggestion \<Rightarrow> nav_state \<Rightarrow> nav_state" where
  "onPressSuggestion item s =
     (if isMounted s
      then s\<lparr>query := name item, destination := Some (coords item), suggestions := []\<rparr>
      else s)"

text \<open>The camera ref is attached when the view with the map is first committed, that
  is once \<^verbatim>\<open>loading\<close> is false.\<close>

definition attachCamera :: "nav_state \<Rightarrow> nav_state" where
  "attachCamera s =
     (if isMounted s \<and> \<not> loading s \<and> cameraRef s = None then s\<lparr>cameraRef := Some []\<rparr> else s)"

text \<open>The navigation panel of the view (lines 475-487) reads
  \<^verbatim>\<open>steps[currentStepIndex].maneuver.instruction\<close> whenever the component is navigating
  with a non-empty step list.\<close>

definition navigationPanel :: "nav_state \<Rightarrow> js_error + string option" where
  "navigationPanel s =
     (if isNavigating s \<and> steps s \<noteq> []
      then if currentStepIndex s < 0 \<or> int (length (steps s)) \<le> currentStepIndex s
           then Inl TypeError
           else Inr (Some (step_instruction (steps s ! nat (currentStepIndex s))))
      else Inr None)"

subsection \<open>The component as a transition system\<close>

text \<open>
  Continuations may fire at any time and with any settled value, whether or not the
  request was issued. An event runs against the latest render; the continuation of a
  poll that was started by an earlier render \<open>r\<close> and settles late is the event
  \<open>StaleTickSettled r\<close>, for any \<open>r\<close>. The reachable states include those of the
  component.
\<close>

datatype event =
    Mount bool
  | InitializeFailed
  | Unmount
  | CameraAttached
  | LocationSettled position
  | TextChanged string
  | SuggestionsSettled "feature list fetched"
  | SuggestionPressed suggestion
  | RouteEffect
  | RouteSettled bool coord coord "route_data list fetched"
  | TrackingEffect
  | StartPressed
  | StopPressed
  | StopSettled position
  | Tick
  | TickSettled position
  | StaleTickSettled nav_state position
  | TouchStart
  | TouchEnd

fun apply_event :: "event \<Rightarrow> nav_state \<Rightarrow> nav_state" where
  "apply_event (Mount granted) s = mountEffect granted s"
| "apply_event InitializeFailed s = s\<lparr>loading := False\<rparr>"
| "apply_event Unmount s = unmountCleanup s"
| "apply_event CameraAttached s = attachCamera s"
| "apply_event (LocationSettled p) s =
     (let (d, s1) = getCurrentPositionSafe_then p s in getCurrentLocation_then d s1)"
| "apply_event (TextChanged text) s = onChangeText text s"
| "apply_event (SuggestionsSettled response) s = fetchSuggestions_then response s"
| "apply_event (SuggestionPressed item) s = onPressSuggestion item s"
| "apply_event RouteEffect s = routeEffect s"
| "apply_event (RouteSettled navigating a b response) s = fetchRoute_then navigating a b response s"
| "apply_event TrackingEffect s = trackingEffect s"
| "apply_event StartPressed s = startNavigation s"
| "apply_event StopPressed s = stopNavigation s"
| "apply_event (StopSettled p) s =
     (let (d, s1) = getCurrentPositionSafe_then p s in stopNavigation_then d s1)"
| "apply_event Tick s = tick s"
| "apply_event (TickSettled p) s =
     (let (d, s1) = getCurrentPositionSafe_then p s in tick_then s1 d s1)"
| "apply_event (StaleTickSettled r p) s =
     (let (d, s1) = getCurrentPositionSafe_then p s in tick_then r d s1)"
| "apply_event TouchStart s = s\<lparr>isMapInteracting := True\<rparr>"
| "apply_event TouchEnd s = s\<lparr>isMapInteracting := False\<rparr>"

definition run :: "event list \<Rightarrow> nav_state \<Rightarrow> nav_state" where
  "run es s = fold apply_event es s"

inductive reachable :: "nav_state \<Rightarrow> bool" where
  reachable_initial: "reachable initial"
| reachable_event: "reachable s \<Longrightarrow> reachable (apply_event e s)"

text \<open>The events that are the settling of a location fetch, a route fetch or a
  suggestion fetch.\<close>

fun settles :: "event \<Rightarrow> bool" where
  "settles (LocationSettled _) = True"
| "settles (SuggestionsSettled _) = True"
| "settles (RouteSettled _ _ _ _) = True"
| "settles (StopSettled _) = True"
| "settles (TickSettled _) = True"
| "settles (StaleTickSettled _ _) = True"
| "settles _ = False"

subsection \<open>A sample trip\<close>

text \<open>A trip along the equator from \<open>(0, 0)\<close> to \<open>(2, 0)\<close> with a turn at \<open>(1, 0)\<close>,
  and the states the component goes through on it.\<close>

definition stepDepart :: step where
  "stepDepart = \<lparr>step_instruction = ''Head east'', step_coordinates = (0, 0),
     step_distance = 900, step_duration = 60\<rparr>"

definition stepTurn :: step where
  "stepTurn = \<lparr>step_instruction = ''Turn left'', step_coordinates = (1, 0),
     step_distance = 600, step_duration = 45\<rparr>"

definition stepArrive :: step where
  "stepArrive = \<lparr>step_instruction = ''You have arrived'', step_coordinates = (2, 0),
     step_distance = 0, step_duration = 0\<rparr>"

definition fullRoute :: route_data where
  "fullRoute = \<lparr>geometry = [(0, 0), (1, 0), (2, 0)], route_distance = 1500,
     route_duration = 105, legs = [[stepDepart, stepTurn, stepArrive]]\<rparr>"

text \<open>A direct route from the start to the destination, without the turn.\<close>

definition directRoute :: route_data where
  "directRoute = \<lparr>geometry = [(0, 0), (2, 0)], route_distance = 1400,
     route_duration = 100, legs = [[stepDepart, stepArrive]]\<rparr>"

text \<open>A route object without legs.\<close>

definition brokenRoute :: route_data where
  "brokenRoute = \<lparr>geometry = [(0, 0), (2, 0)], route_distance = 1500,
     route_duration = 105, legs = []\<rparr>"

definition harbourFeature :: feature where
  "harbourFeature = \<lparr>place_name = ''Harbour'', center = (2, 0)\<rparr>"

definition harbour :: suggestion where
  "harbour = \<lparr>name = ''Harbour'', coords = (2, 0)\<rparr>"

text \<open>Mounted, located, and a suggestion list on the screen.\<close>

definition listed :: nav_state where
  "listed = run [Mount True, LocationSettled (Fix 0 0 0), CameraAttached, TextChanged ''Har'',
     SuggestionsSettled (Resolved (Some [harbourFeature]))] initial"

text \<open>The suggestion is chosen; the route request is out and not yet settled.\<close>

definition ready :: nav_state where
  "ready = run [SuggestionPressed harbour, RouteEffect] listed"

definition routed :: nav_state where
  "routed = run [RouteSettled False (0, 0) (2, 0) (Resolved (Some [fullRoute]))] ready"

definition underway :: nav_state where
  "underway = run [StartPressed, TrackingEffect] routed"

text \<open>A poll at the first maneuver advances to the turn.\<close>

definition advanced1 :: nav_state where
  "advanced1 = run [Tick, TickSettled (Fix 0 0 0)] underway"

text \<open>The re-route request of that advance fails; a poll at the turn advances to the
  last step.\<close>

definition advanced2 :: nav_state where
  "advanced2 =
     run [RouteSettled True (0, 0) (1, 0) Rejected, Tick, TickSettled (Fix 1 0 0)] advanced1"

text \<open>The re-route request of the second advance settles with the direct route of two
  steps.\<close>

definition overrun :: nav_state where
  "overrun = run [RouteSettled True (0, 0) (2, 0) (Resolved (Some [directRoute]))] advanced2"

text \<open>The route of the re-route request from the start to the turn.\<close>

definition turnRoute :: route_data where
  "turnRoute = \<lparr>geometry = [(0, 0), (1, 0)], route_distance = 900,
     route_duration = 60, legs = [[stepDepart, stepTurn]]\<rparr>"



subsection \<open>The second variant of the screen\<close>

text \<open>
  The repository holds a second copy of the component (source file \<^verbatim>\<open>part_000\<close>) that
  keeps the distance and the duration in two cells of their own and fetches the route
  from \<^verbatim>\<open>startNavigation\<close>. Its \<^verbatim>\<open>calculateDistance\<close> is the one above, token by
  token. Its \<^verbatim>\<open>fetchRoute\<close> (lines 98-121) and \<^verbatim>\<open>startNavigation\<close> (lines 295-301)
  are embedded over the cells they use.
\<close>

record screen2 =
  currentLocation2 :: "coord option"
  destination2 :: "coord option"
  route2 :: "coord list option"
  steps2 :: "step list"
  currentStepIndex2 :: int
  distance2 :: "string option"
  duration2 :: "string option"
  isNavigating2 :: bool
  isMounted2 :: bool
  requests2 :: "request list"
  console2 :: "string list"

definition fetchRoute2 :: "coord option \<Rightarrow> coord option \<Rightarrow> screen2 \<Rightarrow> screen2" where
  "fetchRoute2 start end s =
     (case (start, end) of
        (Some a, Some b) \<Rightarrow>
          if \<not> isMounted2 s then s else s\<lparr>requests2 := requests2 s @ [DirectionsRequest a b]\<rparr>
      | _ \<Rightarrow> s)"

definition fetchRoute2_then :: "route_data list fetched \<Rightarrow> screen2 \<Rightarrow> screen2" where
  "fetchRoute2_then response s =
     (case response of
        Rejected \<Rightarrow> s\<lparr>console2 := console2 s @ [''Route fetch error:'']\<rparr>
      | Resolved None \<Rightarrow> s
      | Resolved (Some []) \<Rightarrow> s
      | Resolved (Some (routeData # _)) \<Rightarrow>
          if \<not> isMounted2 s then s
          else
            let s1 = s\<lparr>route2 := Some (geometry routeData)\<rparr>;
                s2 = s1\<lparr>distance2 := Some (toFixed1 (fdiv (route_distance routeData) 1000))\<rparr>;
                s3 = s2\<lparr>duration2 :=
                       Some (intToString (mathRound (fdiv (route_duration routeData) 60)) @
                             '' min'')\<rparr>
            in case legs routeData of
                 [] \<Rightarrow> s3\<lparr>console2 := console2 s3 @ [''Route fetch error:'']\<rparr>
               | leg # _ \<Rightarrow> s3\<lparr>steps2 := leg\<rparr>)"

definition startNavigation2 :: "screen2 \<Rightarrow> screen2" where
  "startNavigation2 s =
     (if currentLocation2 s \<noteq> None \<and> destination2 s \<noteq> None \<and> isMounted2 s
      then fetchRoute2 (currentLocation2 s) (destination2 s)
             (s\<lparr>isNavigating2 := True, currentStepIndex2 := 0\<rparr>)
      else s)"

text \<open>The property kept by every event: while navigating, both endpoints are known
  and the camera is attached.\<close>

abbreviation endpoints :: "nav_state \<Rightarrow> bool" where
  "endpoints s \<equiv>
     isNavigating s \<longrightarrow>
       destination s \<noteq> None \<and> currentLocation s \<noteq> None \<and> cameraRef s \<noteq> None"

section \<open>Properties\<close>

subsection \<open>Rounding\<close>

lemma pow2_powr: "pow2 k = 2 powr of_int k"
  by (simp add: pow2_def powr_int)

lemma floor_log2:
  assumes "2 powr of_int e \<le> x" and "x < 2 powr (of_int e + 1)"
  shows "\<lfloor>log 2 x\<rfloor> = e"
proof -
  have pos: "0 < x"
    using assms(1) by (smt (verit) powr_gt_zero)
  have "of_int e \<le> log 2 x"
    using assms(1) pos by (simp add: le_log_iff)
  moreover have "log 2 x < of_int e + 1"
    using assms(2) pos by (simp add: log_less_iff)
  ultimately show ?thesis
    by (simp add: floor_unique)
qed

text \<open>The value of \<open>fl\<close> at a number whose binary exponent is known.\<close>

lemma fl_eval:
  assumes "pow2 e \<le> \<bar>x\<bar>" and "\<bar>x\<bar> < pow2 (e + 1)" and "- 1022 \<le> e"
  shows "fl x = of_int (roundEven (x / pow2 (e - 52))) * pow2 (e - 52)"
proof -
  have b: "2 powr of_int e \<le> \<bar>x\<bar>" "\<bar>x\<bar> < 2 powr (of_int e + 1)"
    using assms(1,2) by (simp_all add: pow2_powr)
  have "x \<noteq> 0"
    using b(1) by (smt (verit) powr_gt_zero)
  moreover have "\<lfloor>log 2 \<bar>x\<bar>\<rfloor> = e"
    using b by (rule floor_log2)
  ultimately show ?thesis
    using assms(3) by (simp add: fl_def Let_def max_def)
qed

lemma fl_zero: "fl 0 = 0"
  by (simp add: fl_def)

lemma fl_one: "fl 1 = 1"
  using fl_eval [of 0 1] by (simp add: roundEven_def pow2_def)

lemma threshold_pos: "0 < fl (3 / 100)"
  using fl_eval [of "-6" "3 / 100"] by (simp add: roundEven_def pow2_def)

lemma roundEven_minus: "roundEven (- y) = - roundEven y"
proof (cases "y = of_int \<lfloor>y\<rfloor>")
  case True
  then have "\<lfloor>- y\<rfloor> = - \<lfloor>y\<rfloor>"
    by (metis floor_of_int of_int_minus)
  with True show ?thesis
    by (simp add: roundEven_def Let_def)
next
  case False
  then have "\<lfloor>- y\<rfloor> = - \<lfloor>y\<rfloor> - 1"
    by (smt (verit) ceiling_altdef ceiling_def Ints_of_int Ints_cases of_int_floor_cancel)
  with False show ?thesis
    by (auto simp: roundEven_def Let_def)
qed

lemma fl_minus: "fl (- x) = - fl x"
  by (simp add: fl_def Let_def roundEven_minus)

text \<open>The rendering follows the double: 350 metres and 150 metres are shown as 0.3 and
  0.1 kilometres, the doubles nearest to 0.35 and 0.15 being below them.\<close>

lemma toFixed1_of_rounded_quotient:
  "toFixed1 (fdiv 350 1000) = ''0.3'' \<and> toFixed1 (fdiv 150 1000) = ''0.1'' \<and>
   toFixed1 (fdiv 1500 1000) = ''1.5''"
proof -
  have a: "fl (350 / 1000) = 6305039478318694 / 2 ^ 54"
    using fl_eval [of "-2" "350 / 1000"] by (simp add: roundEven_def pow2_def)
  have b: "fl (150 / 1000) = 5404319552844595 / 2 ^ 55"
    using fl_eval [of "-3" "150 / 1000"] by (simp add: roundEven_def pow2_def)
  have c: "fl (1500 / 1000) = 3 / 2"
    using fl_eval [of "0" "1500 / 1000"] by (simp add: roundEven_def pow2_def)
  show ?thesis
    unfolding fdiv_def a b c
    by (simp add: toFixed1_def natToString.simps digitChar_def)
qed

text \<open>A real number within half a unit of the last place of a double, in the binade of
  that double, rounds to it.\<close>

lemma roundEven_near:
  assumes "\<bar>y - of_int m\<bar> < 1 / 2"
  shows "roundEven y = m"
proof (cases "of_int m \<le> y")
  case True
  with assms have f: "\<lfloor>y\<rfloor> = m"
    by (intro floor_unique) linarith+
  from assms True show ?thesis
    by (simp add: roundEven_def Let_def f)
next
  case False
  with assms have f: "\<lfloor>y\<rfloor> = m - 1"
    by (intro floor_unique) (simp, linarith)+
  from assms False show ?thesis
    by (simp add: roundEven_def Let_def f)
qed

lemma fl_near:
  assumes "pow2 e \<le> \<bar>y\<bar>" and "\<bar>y\<bar> < pow2 (e + 1)" and "- 1022 \<le> e"
    and "\<bar>y / pow2 (e - 52) - of_int m\<bar> < 1 / 2"
  shows "fl y = of_int m * pow2 (e - 52)"
  using fl_eval [OF assms(1,2,3)] roundEven_near [OF assms(4)] by simp

subsection \<open>Great-circle distance\<close>

lemma haversineTerm_same: "haversineTerm c c = 0"
  by (simp add: haversineTerm_def fsub_def fmul_def fdiv_def fadd_def mathSin_def fl_zero)

lemma calculateDistance_same: "calculateDistance c c = Some 0"
  by (simp add: calculateDistance_def haversineTerm_same mathSqrt_def mathAtan2_def atan2_def
      fsub_def fmul_def fl_zero fl_one)

lemma haversineTerm_swap: "haversineTerm a b = haversineTerm b a"
proof -
  have d: "fsub x y = - fsub y x" for x y
    using fl_minus [of "y - x"] by (simp add: fsub_def)
  have m: "fmul (- x) y = - fmul x y" for x y
    using fl_minus [of "x * y"] by (simp add: fmul_def)
  have h: "fdiv (- x) y = - fdiv x y" for x y
    using fl_minus [of "x / y"] by (simp add: fdiv_def)
  have s: "mathSin (- x) = - mathSin x" for x
    using fl_minus [of "sin x"] by (simp add: mathSin_def)
  have m2: "fmul x (- y) = - fmul x y" for x y
    using fl_minus [of "x * y"] by (simp add: fmul_def)
  have c: "fmul x y = fmul y x" for x y
    by (simp add: fmul_def mult.commute)
  show ?thesis
    unfolding haversineTerm_def Let_def
    by (simp only: d [of "snd a" "snd b"] d [of "fst a" "fst b"] m m2 h s minus_minus
        c [of "mathCos (fmul (snd a) (fdiv mathPI 180))"])
qed

lemma calculateDistance_swap: "calculateDistance a b = calculateDistance b a"
  by (simp add: calculateDistance_def haversineTerm_swap [of a b])

text \<open>Above 1 the term \<open>a\<close> makes the distance NaN in both directions, and NaN is not
  equal to itself.\<close>

lemma calculateDistance_nan:
  assumes "fsub 1 (haversineTerm a b) < 0"
  shows "calculateDistance a b = None \<and> calculateDistance b a = None \<and>
         \<not> jsEquals (calculateDistance a b) (calculateDistance b a)"
  using assms
  by (simp add: calculateDistance_def haversineTerm_swap [of b a] mathSqrt_def jsEquals_def
      Let_def)

subsection \<open>The distance between nearly antipodal points\<close>

text \<open>The conversion factor \<^verbatim>\<open>Math.PI / 180\<close> and the angles of the coordinates
  \<open>(0, 2.5)\<close> and \<open>(-180, -2.5)\<close>: 2.5 and 5 degrees, and 180 degrees, which is
  \<^verbatim>\<open>Math.PI\<close> again.\<close>

lemma radians_per_degree: "fdiv mathPI 180 = 5030569068109113 / 2 ^ 58"
  using fl_eval [of "- 6" "884279719003555 / 2 ^ 48 / 180"]
  by (simp add: fdiv_def mathPI_def roundEven_def pow2_def)

lemma angle_vals:
  "fl (5 * (5030569068109113 / 2 ^ 58)) = 6288211335136391 / 2 ^ 56"
  "fl (5 / 2 * (5030569068109113 / 2 ^ 58)) = 6288211335136391 / 2 ^ 57"
  "fl (180 * (5030569068109113 / 2 ^ 58)) = 884279719003555 / 2 ^ 48"
  using fl_eval [of "- 4" "5 * (5030569068109113 / 2 ^ 58)"]
    fl_eval [of "- 5" "5 / 2 * (5030569068109113 / 2 ^ 58)"]
    fl_eval [of 1 "180 * (5030569068109113 / 2 ^ 58)"]
  by (simp_all add: roundEven_def pow2_def)

text \<open>Sine and cosine at these angles, enclosed by their Maclaurin polynomials closely
  enough to fix the double they round to.\<close>

lemma sin_poly:
  "(\<Sum>m<11. sin_coeff m * x ^ m) =
     x - x ^ 3 / 6 + x ^ 5 / 120 - x ^ 7 / 5040 + x ^ 9 / 362880" for x :: real
  by (simp add: lessThan_nat_numeral lessThan_Suc sin_coeff_def fact_numeral)

lemma cos_poly:
  "(\<Sum>m<10. cos_coeff m * x ^ m) =
     1 - x ^ 2 / 2 + x ^ 4 / 24 - x ^ 6 / 720 + x ^ 8 / 40320" for x :: real
  by (simp add: lessThan_nat_numeral lessThan_Suc cos_coeff_def fact_numeral)

lemma Maclaurin_cos_bound:
  "\<bar>cos x - (\<Sum>m<n. cos_coeff m * x ^ m)\<bar> \<le> inverse (fact n) * \<bar>x\<bar> ^ n"
proof -
  obtain t where "cos x =
      (\<Sum>m<n. cos_coeff m * x ^ m) + (cos (t + 1 / 2 * real n * pi) / fact n) * x ^ n"
    using Maclaurin_cos_expansion [of x n] by blast
  then have "cos x - (\<Sum>m<n. cos_coeff m * x ^ m) =
      (cos (t + 1 / 2 * real n * pi) / fact n) * x ^ n"
    by simp
  then have "\<bar>cos x - (\<Sum>m<n. cos_coeff m * x ^ m)\<bar> =
      \<bar>(cos (t + 1 / 2 * real n * pi) / fact n) * x ^ n\<bar>"
    by (simp only:)
  also have "\<dots> = \<bar>cos (t + 1 / 2 * real n * pi)\<bar> * (inverse (fact n) * \<bar>x\<bar> ^ n)"
    by (simp add: abs_mult inverse_eq_divide power_abs)
  also have "\<dots> \<le> 1 * (inverse (fact n) * \<bar>x\<bar> ^ n)"
    by (rule mult_right_mono) simp_all
  finally show ?thesis
    by simp
qed

lemma cos_poly16:
  "(\<Sum>m<16. cos_coeff m * x ^ m) =
     1 - x ^ 2 / 2 + x ^ 4 / 24 - x ^ 6 / 720 + x ^ 8 / 40320 - x ^ 10 / 3628800 +
     x ^ 12 / 479001600 - x ^ 14 / 87178291200" for x :: real
  by (simp add: lessThan_nat_numeral lessThan_Suc cos_coeff_def fact_numeral)

lemma sin_x1: "fl (sin (6288211335136391 / 2 ^ 57)) = 6286216213909009 / 2 ^ 57"
proof -
  let ?x = "6288211335136391 / 2 ^ 57 :: real"
  let ?P = "?x - ?x ^ 3 / 6 + ?x ^ 5 / 120 - ?x ^ 7 / 5040 + ?x ^ 9 / 362880"
  have "\<bar>sin ?x - ?P\<bar> \<le> inverse (fact 11) * \<bar>?x\<bar> ^ 11"
    using Maclaurin_sin_bound [of ?x 11] by (simp only: sin_poly)
  moreover have "inverse (fact 11) * \<bar>?x\<bar> ^ 11 \<le> inverse (fact 11) * (11 / 250) ^ 11"
    by (intro mult_left_mono power_mono) simp_all
  moreover have "inverse (fact 11) * (11 / 250) ^ 11 \<le> (1 / 10 ^ 22 :: real)"
    by (simp add: fact_numeral power_divide)
  ultimately have b: "?P - 1 / 10 ^ 22 \<le> sin ?x" "sin ?x \<le> ?P + 1 / 10 ^ 22"
    by linarith+
  have lo: "(6286216213909009 - 2 / 5) / 2 ^ 57 < ?P - 1 / 10 ^ 22"
    by (simp add: power_divide)
  have hi: "?P + 1 / 10 ^ 22 < (6286216213909009 - 1 / 3) / 2 ^ 57"
    by (simp add: power_divide)
  from b lo hi have s: "(6286216213909009 - 2 / 5) / 2 ^ 57 < sin ?x"
      "sin ?x < (6286216213909009 - 1 / 3) / 2 ^ 57"
    by linarith+
  have "fl (sin ?x) = of_int 6286216213909009 * pow2 (- 5 - 52)"
  proof (rule fl_near)
    show "pow2 (- 5) \<le> \<bar>sin ?x\<bar>" "\<bar>sin ?x\<bar> < pow2 (- 5 + 1)"
      using s by (simp_all add: pow2_def)
    show "\<bar>sin ?x / pow2 (- 5 - 52) - of_int 6286216213909009\<bar> < 1 / 2"
      using s by (simp add: pow2_def field_simps)
  qed simp
  then show ?thesis
    by (simp add: pow2_def)
qed

lemma cos_x1: "fl (cos (6288211335136391 / 2 ^ 57)) = 8998626396882423 / 2 ^ 53"
proof -
  let ?x = "6288211335136391 / 2 ^ 57 :: real"
  let ?P = "1 - ?x ^ 2 / 2 + ?x ^ 4 / 24 - ?x ^ 6 / 720 + ?x ^ 8 / 40320"
  have "\<bar>cos ?x - ?P\<bar> \<le> inverse (fact 10) * \<bar>?x\<bar> ^ 10"
    using Maclaurin_cos_bound [of ?x 10] by (simp only: cos_poly)
  moreover have "inverse (fact 10) * \<bar>?x\<bar> ^ 10 \<le> inverse (fact 10) * (11 / 250) ^ 10"
    by (intro mult_left_mono power_mono) simp_all
  moreover have "inverse (fact 10) * (11 / 250) ^ 10 \<le> (1 / 10 ^ 20 :: real)"
    by (simp add: fact_numeral power_divide)
  ultimately have b: "?P - 1 / 10 ^ 20 \<le> cos ?x" "cos ?x \<le> ?P + 1 / 10 ^ 20"
    by linarith+
  have lo: "(8998626396882423 - 1 / 3) / 2 ^ 53 < ?P - 1 / 10 ^ 20"
    by (simp add: power_divide)
  have hi: "?P + 1 / 10 ^ 20 < (8998626396882423 - 3 / 10) / 2 ^ 53"
    by (simp add: power_divide)
  from b lo hi have s: "(8998626396882423 - 1 / 3) / 2 ^ 53 < cos ?x"
      "cos ?x < (8998626396882423 - 3 / 10) / 2 ^ 53"
    by linarith+
  have "fl (cos ?x) = of_int 8998626396882423 * pow2 (- 1 - 52)"
  proof (rule fl_near)
    show "pow2 (- 1) \<le> \<bar>cos ?x\<bar>" "\<bar>cos ?x\<bar> < pow2 (- 1 + 1)"
      using s by (simp_all add: pow2_def)
    show "\<bar>cos ?x / pow2 (- 1 - 52) - of_int 8998626396882423\<bar> < 1 / 2"
      using s by (simp add: pow2_def field_simps)
  qed simp
  then show ?thesis
    by (simp add: pow2_def)
qed

lemma sin_x2: "fl (sin (884279719003555 / 2 ^ 49)) = 1"
proof -
  let ?x = "884279719003555 / 2 ^ 49 :: real"
  let ?P = "1 - ?x ^ 2 / 2 + ?x ^ 4 / 24 - ?x ^ 6 / 720 + ?x ^ 8 / 40320 - ?x ^ 10 / 3628800 +
     ?x ^ 12 / 479001600 - ?x ^ 14 / 87178291200"
  have "\<bar>cos ?x - ?P\<bar> \<le> inverse (fact 16) * \<bar>?x\<bar> ^ 16"
    using Maclaurin_cos_bound [of ?x 16] by (simp only: cos_poly16)
  moreover have "inverse (fact 16) * \<bar>?x\<bar> ^ 16 \<le> inverse (fact 16) * (8 / 5) ^ 16"
    by (intro mult_left_mono power_mono) simp_all
  moreover have "inverse (fact 16) * (8 / 5) ^ 16 \<le> (1 / 10 ^ 10 :: real)"
    by (simp add: fact_numeral power_divide)
  ultimately have b: "?P - 1 / 10 ^ 10 \<le> cos ?x" "cos ?x \<le> ?P + 1 / 10 ^ 10"
    by linarith+
  have lo: "- (1 / 10 ^ 9) < ?P - 1 / 10 ^ 10"
    by (simp add: power_divide)
  have hi: "?P + 1 / 10 ^ 10 < 1 / 10 ^ 9"
    by (simp add: power_divide)
  from b lo hi have "\<bar>cos ?x\<bar> \<le> 1 / 10 ^ 9"
    by linarith
  then have "\<bar>cos ?x\<bar> ^ 2 \<le> (1 / 10 ^ 9) ^ 2"
    by (intro power_mono) simp_all
  then have c2: "(cos ?x)\<^sup>2 \<le> 1 / 10 ^ 18"
    by (simp add: power_divide)
  have "?x < 2"
    by simp
  with pi_ge_two have "?x < pi"
    by linarith
  moreover have "0 < ?x"
    by simp
  ultimately have pos: "0 < sin ?x"
    by (intro sin_gt_zero)
  have le1: "sin ?x \<le> 1"
    by simp
  from pos le1 have "(sin ?x)\<^sup>2 \<le> sin ?x * 1"
    unfolding power2_eq_square by (intro mult_left_mono) simp_all
  moreover have "(sin ?x)\<^sup>2 = 1 - (cos ?x)\<^sup>2"
    by (rule sin_squared_eq)
  ultimately have low: "1 - 1 / 10 ^ 18 \<le> sin ?x"
    using c2 by simp
  show ?thesis
  proof (cases "sin ?x = 1")
    case True
    then show ?thesis
      by (simp add: fl_one)
  next
    case False
    then have lt: "sin ?x < 1"
      by (simp add: less_le)
    have "fl (sin ?x) = of_int 9007199254740992 * pow2 (- 1 - 52)"
    proof (rule fl_near)
      show "pow2 (- 1) \<le> \<bar>sin ?x\<bar>" "\<bar>sin ?x\<bar> < pow2 (- 1 + 1)"
        using low lt by (simp_all add: pow2_def)
      show "\<bar>sin ?x / pow2 (- 1 - 52) - of_int 9007199254740992\<bar> < 1 / 2"
        using low lt by (simp add: pow2_def field_simps)
    qed simp
    then show ?thesis
      by (simp add: pow2_def)
  qed
qed

lemma haversineTerm_antipodal:
  "haversineTerm (0, 5 / 2) (- 180, - (5 / 2)) = 4503599627370497 / 2 ^ 52"
proof -
  have k: "fdiv mathPI 180 = 5030569068109113 / 2 ^ 58"
    by (rule radians_per_degree)
  have f1: "fsub (- (5 / 2)) (5 / 2) = - 5"
    using fl_eval [of 2 "- (5 / 2) - 5 / 2"] by (simp add: fsub_def roundEven_def pow2_def)
  have f2: "fsub (- 180) 0 = - 180"
    using fl_eval [of 7 "- 180"] by (simp add: fsub_def roundEven_def pow2_def)
  have f3: "fmul (- 5) (5030569068109113 / 2 ^ 58) = - (6288211335136391 / 2 ^ 56)"
    using angle_vals(1) fl_minus [of "5 * (5030569068109113 / 2 ^ 58)"]
    by (simp add: fmul_def)
  have f4: "fdiv (- (6288211335136391 / 2 ^ 56)) 2 = - (6288211335136391 / 2 ^ 57)"
    using fl_eval [of "- 5" "- (6288211335136391 / 2 ^ 56) / 2"]
    by (simp add: fdiv_def roundEven_def pow2_def)
  have f5: "mathSin (- (6288211335136391 / 2 ^ 57)) = - (6286216213909009 / 2 ^ 57)"
    using sin_x1 fl_minus [of "sin (6288211335136391 / 2 ^ 57)"] by (simp add: mathSin_def)
  have f6: "fmul (5 / 2) (5030569068109113 / 2 ^ 58) = 6288211335136391 / 2 ^ 57"
    using angle_vals(2) by (simp add: fmul_def)
  have f7: "fmul (- (5 / 2)) (5030569068109113 / 2 ^ 58) = - (6288211335136391 / 2 ^ 57)"
    using angle_vals(2) fl_minus [of "5 / 2 * (5030569068109113 / 2 ^ 58)"]
    by (simp add: fmul_def)
  have f8: "mathCos (6288211335136391 / 2 ^ 57) = 8998626396882423 / 2 ^ 53"
    using cos_x1 by (simp add: mathCos_def)
  have f9: "mathCos (- (6288211335136391 / 2 ^ 57)) = 8998626396882423 / 2 ^ 53"
    using cos_x1 by (simp add: mathCos_def)
  have f10: "fmul (- 180) (5030569068109113 / 2 ^ 58) = - (884279719003555 / 2 ^ 48)"
    using angle_vals(3) fl_minus [of "180 * (5030569068109113 / 2 ^ 58)"]
    by (simp add: fmul_def)
  have f11: "fdiv (- (884279719003555 / 2 ^ 48)) 2 = - (884279719003555 / 2 ^ 49)"
    using fl_eval [of 0 "- (884279719003555 / 2 ^ 48) / 2"]
    by (simp add: fdiv_def roundEven_def pow2_def)
  have f12: "mathSin (- (884279719003555 / 2 ^ 49)) = - 1"
    using sin_x2 fl_minus [of "sin (884279719003555 / 2 ^ 49)"] by (simp add: mathSin_def)
  have f13: "fmul (- (6286216213909009 / 2 ^ 57)) (- (6286216213909009 / 2 ^ 57)) =
      8774428803096094 / 2 ^ 62"
    using fl_eval [of "- 10" "- (6286216213909009 / 2 ^ 57) * - (6286216213909009 / 2 ^ 57)"]
    by (simp add: fmul_def roundEven_def pow2_def)
  have f14: "fmul (8998626396882423 / 2 ^ 53) (8998626396882423 / 2 ^ 53) =
      8990061698484946 / 2 ^ 53"
    using fl_eval [of "- 1" "8998626396882423 / 2 ^ 53 * (8998626396882423 / 2 ^ 53)"]
    by (simp add: fmul_def roundEven_def pow2_def)
  have f15: "fmul (8990061698484946 / 2 ^ 53) (- 1) = - (8990061698484946 / 2 ^ 53)"
    using fl_eval [of "- 1" "8990061698484946 / 2 ^ 53 * - 1"]
    by (simp add: fmul_def roundEven_def pow2_def)
  have f16: "fmul (- (8990061698484946 / 2 ^ 53)) (- 1) = 8990061698484946 / 2 ^ 53"
    using fl_eval [of "- 1" "- (8990061698484946 / 2 ^ 53) * - 1"]
    by (simp add: fmul_def roundEven_def pow2_def)
  have f17: "fadd (8774428803096094 / 2 ^ 62) (8990061698484946 / 2 ^ 53) =
      4503599627370497 / 2 ^ 52"
    using fl_eval [of 0 "8774428803096094 / 2 ^ 62 + 8990061698484946 / 2 ^ 53"]
    by (simp add: fadd_def roundEven_def pow2_def)
  show ?thesis
    unfolding haversineTerm_def Let_def fst_conv snd_conv
    unfolding k f1 f2
    unfolding f3 f6 f7 f10
    unfolding f4 f11
    unfolding f5 f8 f9 f12
    unfolding f13 f14
    unfolding f15
    unfolding f16
    unfolding f17
    by (rule refl)
qed

lemma antipodal_above_one: "fsub 1 (haversineTerm (0, 5 / 2) (- 180, - (5 / 2))) < 0"
proof -
  have "fl (1 - 4503599627370497 / 2 ^ 52) = - (1 / 2 ^ 52)"
    using fl_eval [of "- 52" "1 - 4503599627370497 / 2 ^ 52"]
    by (simp add: roundEven_def pow2_def)
  then show ?thesis
    unfolding haversineTerm_antipodal fsub_def by simp
qed

text \<open>
  Claim C8. The distance should be symmetric, and zero between a coordinate and itself,
  for all coordinates. It is zero on equal arguments, and the two directions compute
  the same value. For the nearly antipodal coordinates \<open>(0, 2.5)\<close> and \<open>(-180, -2.5)\<close>
  that value is NaN: the term \<open>a\<close> is rounded to \<open>1 + 2\<^sup>-\<^sup>5\<^sup>2\<close>, \<^verbatim>\<open>Math.sqrt(1 - a)\<close> is
  NaN, and the comparison \<^verbatim>\<open>==\<close> of the two distances is false.
\<close>

theorem calculateDistance_antipodal:
  "calculateDistance (0, 5 / 2) (- 180, - (5 / 2)) = None \<and>
   calculateDistance (- 180, - (5 / 2)) (0, 5 / 2) = None \<and>
   \<not> jsEquals (calculateDistance (0, 5 / 2) (- 180, - (5 / 2)))
        (calculateDistance (- 180, - (5 / 2)) (0, 5 / 2))"
  by (rule calculateDistance_nan) (rule antipodal_above_one)

subsection \<open>Duration format\<close>

lemmas render_defs = formatDuration_def mathRound_def jsRem_def jsTrunc_def padStart2_def
  intToString_def natToString.simps digitChar_def

lemma hours_of_examples:
  "\<lfloor>fdiv 90 60\<rfloor> = 1 \<and> \<lfloor>fdiv 5 60\<rfloor> = 0 \<and> \<lfloor>fdiv (119 / 2) 60\<rfloor> = 0"
proof -
  have a: "fl (90 / 60) = 3 / 2"
    using fl_eval [of 0 "90 / 60"] by (simp add: roundEven_def pow2_def)
  have b: "fl (5 / 60) = 6004799503160661 / 2 ^ 56"
    using fl_eval [of "-4" "5 / 60"] by (simp add: roundEven_def pow2_def)
  have c: "fl (119 / 2 / 60) = 8932139260951484 / 2 ^ 53"
    using fl_eval [of "-1" "119 / 2 / 60"] by (simp add: roundEven_def pow2_def)
  show ?thesis
    unfolding fdiv_def a b c by simp
qed

lemma formatDuration_examples:
  "formatDuration 90 = ''01:30'' \<and> formatDuration 5 = ''00:05''"
  using hours_of_examples by (simp add: render_defs)

text \<open>
  Claim C9. For every non-negative minute count, \<^verbatim>\<open>formatDuration\<close> should render a
  minutes field between 00 and 59. The function rounds the remainder after taking it,
  so at 59.5 minutes (a route of 3570 seconds, as \<^verbatim>\<open>fetchRoute\<close> passes it) the minutes
  field is 60.
\<close>

theorem formatDuration_sixty_minutes: "formatDuration (119 / 2) = ''00:60''"
  using hours_of_examples by (simp add: render_defs)

subsection \<open>The loop of the remaining totals\<close>

lemma remainingLoop_fold:
  "remainingLoop ss i d t =
     (foldl fadd d (map step_distance (drop i ss)), foldl fadd t (map step_duration (drop i ss)))"
proof (induction ss i d t rule: remainingLoop.induct)
  case (1 ss i d t)
  show ?case
  proof (cases "i < length ss")
    case True
    then have "drop i ss = ss ! i # drop (i + 1) ss"
      by (simp add: Cons_nth_drop_Suc)
    with True "1.IH" show ?thesis
      by (subst remainingLoop.simps) simp
  next
    case False
    then show ?thesis
      by (subst remainingLoop.simps) simp
  qed
qed

subsection \<open>The sample trip\<close>

lemmas op_defs = run_def mountEffect_def unmountCleanup_def getCurrentPositionSafe_def
  getCurrentPositionSafe_then_def getCurrentLocation_then_def attachCamera_def onChangeText_def
  fetchSuggestions_def fetchSuggestions_then_def onPressSuggestion_def routeEffect_def
  fetchRoute_def issue_def logLine_def sendCamera_def fetchRoute_then_def startNavigation_def
  trackingEffect_def startNavigationTracking_def tick_def tick_then_def updateNavigation_def
  handleStepChange_def stopNavigation_def stopNavigation_then_def jsLess_def Let_def

lemmas sample_defs = stepDepart_def stepTurn_def stepArrive_def fullRoute_def directRoute_def
  turnRoute_def brokenRoute_def harbourFeature_def harbour_def

lemma reachable_run: "reachable s \<Longrightarrow> reachable (run es s)"
  unfolding run_def
  by (induction es arbitrary: s) (auto intro: reachable_event)

lemma listed_eq:
  "listed = initial\<lparr>currentLocation := Some (0, 0), query := ''Har'',
     suggestions := [harbour], loading := False, cameraRef := Some [],
     requests := [PositionRequest, GeocodingRequest ''Har'']\<rparr>"
  by (simp add: listed_def op_defs initial_def harbourFeature_def harbour_def)

lemma ready_eq:
  "ready = initial\<lparr>currentLocation := Some (0, 0), destination := Some (2, 0),
     query := ''Harbour'', loading := False, cameraRef := Some [],
     requests := [PositionRequest, GeocodingRequest ''Har'', DirectionsRequest (0, 0) (2, 0)]\<rparr>"
  by (simp add: ready_def listed_eq op_defs initial_def harbour_def)

lemma routed_eq:
  "routed = ready\<lparr>route := Some [(0, 0), (1, 0), (2, 0)],
     steps := [stepDepart, stepTurn, stepArrive],
     routeInfo := \<lparr>info_distance = Some (toFixed1 (fdiv 1500 1000)),
       info_duration = Some (formatDuration (fdiv 105 60)),
       remainingDistance = Some (toFixed1 (fdiv 1500 1000)),
       remainingDuration = Some (formatDuration (fdiv 105 60))\<rparr>,
     cameraRef := Some [FitBounds (0, 0) (2, 0) 120 1000]\<rparr>"
  by (simp add: routed_def ready_eq op_defs initial_def fullRoute_def)

lemma underway_eq:
  "underway = routed\<lparr>isNavigating := True,
     cameraRef := Some [FitBounds (0, 0) (2, 0) 120 1000, SetCamera (0, 0) 0 18 1000],
     locationInterval := Some Running\<rparr>"
  by (simp add: underway_def routed_eq ready_eq op_defs initial_def)

lemma advanced1_eq:
  "advanced1 = underway\<lparr>currentStepIndex := 1,
     routeInfo := \<lparr>info_distance = Some (toFixed1 (fdiv 1500 1000)),
       info_duration = Some (formatDuration (fdiv 105 60)),
       remainingDistance = Some (toFixed1 (fdiv (foldl fadd 0 [900, 600, 0]) 1000)),
       remainingDuration = Some (formatDuration (fdiv (foldl fadd 0 [60, 45, 0]) 60))\<rparr>,
     cameraRef := Some [FitBounds (0, 0) (2, 0) 120 1000, SetCamera (0, 0) 0 18 1000,
       SetCamera (1, 0) 0 18 1000, SetCamera (0, 0) 0 18 500],
     requests := requests underway @ [PositionRequest, DirectionsRequest (0, 0) (1, 0)]\<rparr>"
  by (simp add: advanced1_def underway_eq routed_eq ready_eq op_defs initial_def sample_defs
      remainingLoop_fold calculateDistance_same threshold_pos)

lemmas sample_eqs = advanced1_eq underway_eq routed_eq ready_eq initial_def

lemma advanced2_eq:
  "advanced2 = advanced1\<lparr>currentLocation := Some (1, 0), currentStepIndex := 2,
     routeInfo := \<lparr>info_distance = Some (toFixed1 (fdiv 1500 1000)),
       info_duration = Some (formatDuration (fdiv 105 60)),
       remainingDistance = Some (toFixed1 (fdiv (foldl fadd 0 [600, 0]) 1000)),
       remainingDuration = Some (formatDuration (fdiv (foldl fadd 0 [45, 0]) 60))\<rparr>,
     cameraRef := Some [FitBounds (0, 0) (2, 0) 120 1000, SetCamera (0, 0) 0 18 1000,
       SetCamera (1, 0) 0 18 1000, SetCamera (0, 0) 0 18 500,
       SetCamera (2, 0) 0 18 1000, SetCamera (1, 0) 0 18 500],
     requests := requests advanced1 @ [PositionRequest, DirectionsRequest (0, 0) (2, 0)],
     console := [''Route fetch error:'']\<rparr>"
  by (simp add: advanced2_def sample_eqs op_defs sample_defs remainingLoop_fold
      calculateDistance_same threshold_pos)

lemma overrun_eq:
  "overrun = advanced2\<lparr>route := Some [(0, 0), (2, 0)], steps := [stepDepart, stepArrive],
     routeInfo := \<lparr>info_distance = Some (toFixed1 (fdiv 1400 1000)),
       info_duration = Some (formatDuration (fdiv 100 60)),
       remainingDistance = Some (toFixed1 (fdiv 1400 1000)),
       remainingDuration = Some (formatDuration (fdiv 100 60))\<rparr>\<rparr>"
  by (simp add: overrun_def advanced2_eq sample_eqs op_defs sample_defs)



lemma reachable_listed: "reachable listed"
  unfolding listed_def by (rule reachable_run) (rule reachable_initial)

lemma reachable_ready: "reachable ready"
  unfolding ready_def by (rule reachable_run) (rule reachable_listed)

lemma reachable_routed: "reachable routed"
  unfolding routed_def by (rule reachable_run) (rule reachable_ready)

lemma reachable_underway: "reachable underway"
  unfolding underway_def by (rule reachable_run) (rule reachable_routed)

lemma reachable_advanced1: "reachable advanced1"
  unfolding advanced1_def by (rule reachable_run) (rule reachable_underway)

lemma reachable_advanced2: "reachable advanced2"
  unfolding advanced2_def by (rule reachable_run) (rule reachable_advanced1)

lemma reachable_overrun: "reachable overrun"
  unfolding overrun_def by (rule reachable_run) (rule reachable_advanced2)


subsection \<open>Route acquisition\<close>

text \<open>
  Claim C1, as amended. A successful route fetch (the response has at least one route,
  its first route has a leg, the component is mounted) replaces the route geometry by
  that of the first route and the step list by the steps of its first leg, and sets
  the distance, the duration, the remaining distance and the remaining duration from
  the totals of that route: the kilometres of its distance with one decimal, and the
  hours and minutes of its duration.
\<close>

theorem fetchRoute_then_installs_route:
  assumes "isMounted s" and "legs routeData = leg # moreLegs"
  shows "route (fetchRoute_then nav a b (Resolved (Some (routeData # others))) s) =
           Some (geometry routeData) \<and>
         steps (fetchRoute_then nav a b (Resolved (Some (routeData # others))) s) = leg \<and>
         routeInfo (fetchRoute_then nav a b (Resolved (Some (routeData # others))) s) =
           \<lparr>info_distance = Some (toFixed1 (fdiv (route_distance routeData) 1000)),
            info_duration = Some (formatDuration (fdiv (route_duration routeData) 60)),
            remainingDistance = Some (toFixed1 (fdiv (route_distance routeData) 1000)),
            remainingDuration = Some (formatDuration (fdiv (route_duration routeData) 60))\<rparr>"
  using assms
  by (simp add: fetchRoute_then_def sendCamera_def Let_def split: option.splits)

theorem fetchRoute_then_installs_route_witness:
  "isMounted ready \<and> legs fullRoute = [stepDepart, stepTurn, stepArrive] # [] \<and>
   route (fetchRoute_then False (0, 0) (2, 0) (Resolved (Some (fullRoute # []))) ready) =
     Some (geometry fullRoute) \<and>
   steps (fetchRoute_then False (0, 0) (2, 0) (Resolved (Some (fullRoute # []))) ready) =
     [stepDepart, stepTurn, stepArrive]"
proof -
  have m: "isMounted ready"
    by (simp add: ready_eq initial_def)
  have l: "legs fullRoute = [stepDepart, stepTurn, stepArrive] # []"
    by (simp add: fullRoute_def)
  from fetchRoute_then_installs_route [OF m l, of False "(0, 0)" "(2, 0)" "[]"] m l
  show ?thesis
    by simp
qed

text \<open>
  Claim C1 as stated also has the fetch reset the active step index to 0. After the
  advance to step 1 on the sample trip, the re-route response is installed and the
  index is still 1.
\<close>

theorem fetchRoute_then_index_counterexample:
  "steps (fetchRoute_then True (0, 0) (1, 0) (Resolved (Some [turnRoute])) advanced1) =
     [stepDepart, stepTurn] \<and>
   currentStepIndex (fetchRoute_then True (0, 0) (1, 0) (Resolved (Some [turnRoute])) advanced1)
     \<noteq> 0"
  by (simp add: sample_eqs fetchRoute_then_def turnRoute_def Let_def)

text \<open>Neither variant of \<^verbatim>\<open>fetchRoute\<close> writes the index.\<close>

lemma fetchRoute_then_keeps_index:
  "currentStepIndex (fetchRoute_then nav a b response s) = currentStepIndex s"
  by (simp add: fetchRoute_then_def logLine_def sendCamera_def Let_def
      split: fetched.splits option.splits list.splits)

lemma fetchRoute2_then_keeps_index:
  "currentStepIndex2 (fetchRoute2_then response s) = currentStepIndex2 s"
  by (simp add: fetchRoute2_then_def Let_def split: fetched.splits option.splits list.splits)

subsection \<open>The index and the step list\<close>

text \<open>
  Claim C2. In every reachable state with a non-empty step list the active index should
  be below the length of the list. On the sample trip the second advance sets the index
  to 2 and the response to its re-route request then installs a list of two steps: the
  state is reachable, the panel of the view fails on it, and so does the next poll.
\<close>

theorem index_beyond_steps:
  "reachable overrun \<and> isNavigating overrun \<and> length (steps overrun) = 2 \<and>
   currentStepIndex overrun = 2 \<and> navigationPanel overrun = Inl TypeError \<and>
   uncaught (apply_event (TickSettled (Fix 2 0 0)) overrun) = [TypeError]"
proof -
  have "isNavigating overrun \<and> length (steps overrun) = 2 \<and> currentStepIndex overrun = 2"
    by (simp add: overrun_eq advanced2_eq sample_eqs)
  moreover have "navigationPanel overrun = Inl TypeError"
    by (simp add: overrun_eq advanced2_eq sample_eqs navigationPanel_def)
  moreover have "uncaught (apply_event (TickSettled (Fix 2 0 0)) overrun) = [TypeError]"
    by (simp add: overrun_eq advanced2_eq sample_eqs getCurrentPositionSafe_then_def
        tick_then_def updateNavigation_def)
  ultimately show ?thesis
    using reachable_overrun by simp
qed

text \<open>\<^verbatim>\<open>handleStepChange\<close> itself only ever sets an index inside the list it reads.\<close>

lemma handleStepChange_in_range:
  "handleStepChange r i s \<noteq> s \<Longrightarrow> 0 \<le> i \<and> i < int (length (steps r))"
  by (auto simp: handleStepChange_def split: if_splits)

subsection \<open>Navigating implies endpoints\<close>

lemma sendCamera_fields [simp]:
  "isNavigating (sendCamera c s) = isNavigating s"
  "destination (sendCamera c s) = destination s"
  "currentLocation (sendCamera c s) = currentLocation s"
  "(cameraRef (sendCamera c s) = None) = (cameraRef s = None)"
  "(\<exists>y. cameraRef (sendCamera c s) = Some y) = (\<exists>y. cameraRef s = Some y)"
  by (simp_all add: sendCamera_def split: option.splits)

lemma logLine_fields [simp]:
  "isNavigating (logLine l s) = isNavigating s"
  "destination (logLine l s) = destination s"
  "currentLocation (logLine l s) = currentLocation s"
  "(cameraRef (logLine l s) = None) = (cameraRef s = None)"
  "(\<exists>y. cameraRef (logLine l s) = Some y) = (\<exists>y. cameraRef s = Some y)"
  by (simp_all add: logLine_def)

lemma issue_fields [simp]:
  "isNavigating (issue q s) = isNavigating s"
  "destination (issue q s) = destination s"
  "currentLocation (issue q s) = currentLocation s"
  "(cameraRef (issue q s) = None) = (cameraRef s = None)"
  "(\<exists>y. cameraRef (issue q s) = Some y) = (\<exists>y. cameraRef s = Some y)"
  by (simp_all add: issue_def)

lemma getCurrentPositionSafe_fields [simp]:
  "isNavigating (getCurrentPositionSafe s) = isNavigating s"
  "destination (getCurrentPositionSafe s) = destination s"
  "currentLocation (getCurrentPositionSafe s) = currentLocation s"
  "(cameraRef (getCurrentPositionSafe s) = None) = (cameraRef s = None)"
  "(\<exists>y. cameraRef (getCurrentPositionSafe s) = Some y) = (\<exists>y. cameraRef s = Some y)"
  by (simp_all add: getCurrentPositionSafe_def)

lemma getCurrentPositionSafe_then_fields [simp]:
  "isNavigating (snd (getCurrentPositionSafe_then p s)) = isNavigating s"
  "destination (snd (getCurrentPositionSafe_then p s)) = destination s"
  "currentLocation (snd (getCurrentPositionSafe_then p s)) = currentLocation s"
  "(cameraRef (snd (getCurrentPositionSafe_then p s)) = None) = (cameraRef s = None)"
  "(\<exists>y. cameraRef (snd (getCurrentPositionSafe_then p s)) = Some y) = (\<exists>y. cameraRef s = Some y)"
  by (simp_all add: getCurrentPositionSafe_then_def split: position.splits)

lemma fetchRoute_fields [simp]:
  "isNavigating (fetchRoute a b s) = isNavigating s"
  "destination (fetchRoute a b s) = destination s"
  "currentLocation (fetchRoute a b s) = currentLocation s"
  "(cameraRef (fetchRoute a b s) = None) = (cameraRef s = None)"
  "(\<exists>y. cameraRef (fetchRoute a b s) = Some y) = (\<exists>y. cameraRef s = Some y)"
  by (simp_all add: fetchRoute_def split: option.splits)

lemma fetchRoute_then_fields [simp]:
  "isNavigating (fetchRoute_then n a b response s) = isNavigating s"
  "destination (fetchRoute_then n a b response s) = destination s"
  "currentLocation (fetchRoute_then n a b response s) = currentLocation s"
  "(cameraRef (fetchRoute_then n a b response s) = None) = (cameraRef s = None)"
  "(\<exists>y. cameraRef (fetchRoute_then n a b response s) = Some y) = (\<exists>y. cameraRef s = Some y)"
  by (simp_all add: fetchRoute_then_def Let_def split: fetched.splits option.splits list.splits)

lemma fetchSuggestions_fields [simp]:
  "isNavigating (fetchSuggestions i s) = isNavigating s"
  "destination (fetchSuggestions i s) = destination s"
  "currentLocation (fetchSuggestions i s) = currentLocation s"
  "(cameraRef (fetchSuggestions i s) = None) = (cameraRef s = None)"
  "(\<exists>y. cameraRef (fetchSuggestions i s) = Some y) = (\<exists>y. cameraRef s = Some y)"
  by (simp_all add: fetchSuggestions_def)

lemma fetchSuggestions_then_fields [simp]:
  "isNavigating (fetchSuggestions_then response s) = isNavigating s"
  "destination (fetchSuggestions_then response s) = destination s"
  "currentLocation (fetchSuggestions_then response s) = currentLocation s"
  "(cameraRef (fetchSuggestions_then response s) = None) = (cameraRef s = None)"
  "(\<exists>y. cameraRef (fetchSuggestions_then response s) = Some y) = (\<exists>y. cameraRef s = Some y)"
  by (simp_all add: fetchSuggestions_then_def split: fetched.splits option.splits)

lemma stopNavigation_fields [simp]:
  "isNavigating (stopNavigation s) = (\<not> isMounted s \<and> isNavigating s)"
  "destination (stopNavigation s) = destination s"
  "currentLocation (stopNavigation s) = currentLocation s"
  "(cameraRef (stopNavigation s) = None) = (cameraRef s = None)"
  "(\<exists>y. cameraRef (stopNavigation s) = Some y) = (\<exists>y. cameraRef s = Some y)"
  by (simp_all add: stopNavigation_def)

lemma handleStepChange_fields [simp]:
  "isNavigating (handleStepChange r i s) = isNavigating s"
  "destination (handleStepChange r i s) = destination s"
  "currentLocation (handleStepChange r i s) = currentLocation s"
  "(cameraRef (handleStepChange r i s) = None) = (cameraRef s = None)"
  "(\<exists>y. cameraRef (handleStepChange r i s) = Some y) = (\<exists>y. cameraRef s = Some y)"
  by (simp_all add: handleStepChange_def Let_def)

lemma updateNavigation_endpoints:
  assumes "updateNavigation r loc s = Inr s'" and "endpoints s"
  shows "endpoints s'"
proof -
  let ?s1 = "s\<lparr>routeInfo := (routeInfo s)
      \<lparr>remainingDistance := Some (toFixed1
         (fdiv (fst (remainingLoop (steps r) (nat (currentStepIndex r)) 0 0)) 1000)),
       remainingDuration := Some (formatDuration
         (fdiv (snd (remainingLoop (steps r) (nat (currentStepIndex r)) 0 0)) 60))\<rparr>\<rparr>"
  from assms(1) have "s' = s \<or> s' = handleStepChange r (currentStepIndex r + 1) ?s1 \<or>
      s' = stopNavigation ?s1 \<or> s' = ?s1"
    by (simp add: updateNavigation_def Let_def split_beta split: if_splits)
  moreover have "endpoints ?s1"
    using assms(2) by simp
  moreover have "endpoints (stopNavigation ?s1)"
    using assms(2) by simp
  ultimately show ?thesis
    using assms(2) by auto
qed

lemma tick_then_endpoints: "endpoints s \<Longrightarrow> endpoints (tick_then r d s)"
proof (cases d)
  case None
  assume "endpoints s"
  with None show ?thesis by (simp add: tick_then_def)
next
  case (Some ld)
  assume e: "endpoints s"
  obtain cs heading where ld: "ld = (cs, heading)" by (cases ld)
  let ?s1 = "s\<lparr>currentLocation := Some cs, currentHeading := heading\<rparr>"
  from e have e1: "endpoints ?s1" by simp
  show ?thesis
  proof (cases "updateNavigation r cs ?s1")
    case (Inl err)
    with Some ld e1 e show ?thesis by (simp add: tick_then_def)
  next
    case (Inr s2)
    from updateNavigation_endpoints [OF Inr e1] have "endpoints s2" .
    with Some ld Inr e show ?thesis by (simp add: tick_then_def)
  qed
qed

lemma stopNavigation_then_endpoints: "endpoints s \<Longrightarrow> endpoints (stopNavigation_then d s)"
  by (simp add: stopNavigation_then_def split: option.splits prod.splits)

lemma getCurrentLocation_then_endpoints:
  "endpoints s \<Longrightarrow> endpoints (getCurrentLocation_then d s)"
  by (simp add: getCurrentLocation_then_def split: option.splits prod.splits)

lemma startNavigation_endpoints: "endpoints s \<Longrightarrow> endpoints (startNavigation s)"
  by (auto simp: startNavigation_def split: option.splits)

lemma settled_endpoints: "endpoints s \<Longrightarrow> endpoints (snd (getCurrentPositionSafe_then p s))"
  by simp

lemma event_keeps_endpoints:
  assumes "endpoints s"
  shows "endpoints (apply_event e s)"
proof (cases e)
  case (LocationSettled p)
  with getCurrentLocation_then_endpoints [OF settled_endpoints [OF assms]]
  show ?thesis by (simp add: split_beta)
next
  case (StopSettled p)
  with stopNavigation_then_endpoints [OF settled_endpoints [OF assms]]
  show ?thesis by (simp add: split_beta)
next
  case (TickSettled p)
  with tick_then_endpoints [OF settled_endpoints [OF assms]]
  show ?thesis by (simp add: split_beta)
next
  case (StaleTickSettled r p)
  with tick_then_endpoints [OF settled_endpoints [OF assms]]
  show ?thesis by (simp add: split_beta)
next
  case StartPressed
  with startNavigation_endpoints [OF assms] show ?thesis by simp
next
  case StopPressed
  with assms show ?thesis by simp
qed (insert assms, simp_all add: mountEffect_def unmountCleanup_def attachCamera_def
    onChangeText_def onPressSuggestion_def routeEffect_def trackingEffect_def
    startNavigationTracking_def tick_def Let_def split: option.splits)

text \<open>
  Claim C3, as amended. In every reachable state, navigating implies that the
  destination and the current location are known. Nothing is said about the route:
  \<^verbatim>\<open>startNavigation\<close> asks for a location, a destination and a camera only.
\<close>

theorem navigating_has_endpoints:
  "reachable s \<Longrightarrow> isNavigating s \<Longrightarrow> destination s \<noteq> None \<and> currentLocation s \<noteq> None"
proof -
  assume "reachable s"
  then have "endpoints s"
  proof (induction rule: reachable.induct)
    case reachable_initial
    show ?case by (simp add: initial_def)
  next
    case (reachable_event s e)
    from reachable_event.IH show ?case by (rule event_keeps_endpoints)
  qed
  moreover assume "isNavigating s"
  ultimately show ?thesis by simp
qed

theorem navigating_has_endpoints_witness:
  "reachable underway \<and> isNavigating underway \<and>
   destination underway \<noteq> None \<and> currentLocation underway \<noteq> None"
proof -
  have n: "isNavigating underway"
    by (simp add: underway_eq)
  from navigating_has_endpoints [OF reachable_underway n] reachable_underway n
  show ?thesis
    by simp
qed

text \<open>
  Claim C3 as stated also has a route present whenever the component navigates. On the
  sample trip the start button is pressed while the route request is still out: the
  component navigates and the route is \<^verbatim>\<open>null\<close>.
\<close>

theorem navigating_without_route_counterexample:
  "reachable (apply_event StartPressed ready) \<and>
   isNavigating (apply_event StartPressed ready) \<and>
   route (apply_event StartPressed ready) = None"
proof -
  have "reachable (apply_event StartPressed ready)"
    using reachable_ready by (rule reachable_event)
  moreover have "isNavigating (apply_event StartPressed ready) \<and>
      route (apply_event StartPressed ready) = None"
    by (simp add: ready_eq initial_def startNavigation_def sendCamera_def)
  ultimately show ?thesis
    by simp
qed

text \<open>The camera stays attached while the component navigates.\<close>

lemma navigating_has_camera: "reachable s \<Longrightarrow> isNavigating s \<Longrightarrow> cameraRef s \<noteq> None"
proof -
  assume "reachable s"
  then have "endpoints s"
  proof (induction rule: reachable.induct)
    case reachable_initial
    show ?case by (simp add: initial_def)
  next
    case (reachable_event s e)
    from reachable_event.IH show ?case by (rule event_keeps_endpoints)
  qed
  moreover assume "isNavigating s"
  ultimately show ?thesis by simp
qed

text \<open>In the second variant the request for the route leaves only after the flag is
  set, and the route cell is as it was.\<close>

lemma startNavigation2_route:
  "route2 (startNavigation2 s) = route2 s \<and>
   (currentLocation2 s \<noteq> None \<and> destination2 s \<noteq> None \<and> isMounted2 s \<longrightarrow>
      isNavigating2 (startNavigation2 s))"
  by (auto simp: startNavigation2_def fetchRoute2_def split: option.splits)

subsection \<open>What a poll reads\<close>








subsection \<open>Arrival\<close>




subsection \<open>The remaining totals\<close>





subsection \<open>Failed fetches\<close>

text \<open>
  Claim C5, as amended. A route fetch that is rejected, or whose response has no
  \<^verbatim>\<open>routes\<close> field or an empty one, and a suggestion fetch that is rejected or whose
  response has no \<^verbatim>\<open>features\<close> field, leave every cell of the component as it was;
  a rejection adds one line to the console and nothing else.
\<close>

theorem failed_fetch_keeps_state:
  "fetchRoute_then nav a b Rejected s = logLine ''Route fetch error:'' s \<and>
   fetchRoute_then nav a b (Resolved None) s = s \<and>
   fetchRoute_then nav a b (Resolved (Some [])) s = s \<and>
   fetchSuggestions_then Rejected s = logLine ''Suggestions error:'' s \<and>
   fetchSuggestions_then (Resolved None) s = s \<and>
   logLine l s = s\<lparr>console := console s @ [l]\<rparr>"
  by (simp add: fetchRoute_then_def fetchSuggestions_then_def logLine_def)

text \<open>A response with an empty feature list is taken as a result and empties the
  suggestion list.\<close>

lemma empty_features_clear_suggestions:
  "isMounted s \<Longrightarrow> fetchSuggestions_then (Resolved (Some [])) s = s\<lparr>suggestions := []\<rparr>"
  by (simp add: fetchSuggestions_then_def)

text \<open>
  Claim C5 as stated covers every malformed response. A route object without legs
  replaces the route while the steps stay, and a response without features empties a
  suggestion list that was on the screen.
\<close>

theorem failed_fetch_counterexample:
  "route (fetchRoute_then False (0, 0) (2, 0) (Resolved (Some [brokenRoute])) ready)
     \<noteq> route ready \<and>
   steps (fetchRoute_then False (0, 0) (2, 0) (Resolved (Some [brokenRoute])) ready)
     = steps ready \<and>
   suggestions (fetchSuggestions_then (Resolved (Some [])) listed) \<noteq> suggestions listed"
  by (simp add: ready_eq listed_eq initial_def fetchRoute_then_def fetchSuggestions_then_def
      logLine_def brokenRoute_def Let_def)

subsection \<open>Settling after the component is gone\<close>

lemma tick_then_unmounted: "\<not> isMounted s \<Longrightarrow> tick_then r d s = s"
  by (simp add: tick_then_def split: option.splits prod.splits)

lemma stopNavigation_then_unmounted: "\<not> isMounted s \<Longrightarrow> stopNavigation_then d s = s"
  by (simp add: stopNavigation_then_def split: option.splits prod.splits)

lemma getCurrentLocation_then_unmounted: "\<not> isMounted s \<Longrightarrow> getCurrentLocation_then d s = s"
  by (simp add: getCurrentLocation_then_def split: option.splits prod.splits)

lemma fetchRoute_then_unmounted:
  "\<not> isMounted s \<Longrightarrow>
   (fetchRoute_then nav a b response s)
     \<lparr>isLocationRequestPending := isLocationRequestPending s, console := console s\<rparr> = s"
  by (simp add: fetchRoute_then_def logLine_def split: fetched.splits option.splits list.splits)

lemma fetchSuggestions_then_unmounted:
  "\<not> isMounted s \<Longrightarrow>
   (fetchSuggestions_then response s)
     \<lparr>isLocationRequestPending := isLocationRequestPending s, console := console s\<rparr> = s"
  by (simp add: fetchSuggestions_then_def logLine_def split: fetched.splits option.splits)

lemma getCurrentPositionSafe_then_refs:
  "(snd (getCurrentPositionSafe_then p s))
     \<lparr>isLocationRequestPending := isLocationRequestPending s, console := console s\<rparr> = s"
  "isMounted (snd (getCurrentPositionSafe_then p s)) = isMounted s"
  by (simp_all add: getCurrentPositionSafe_then_def logLine_def split: position.splits)

text \<open>
  Claim C6. When the component is not mounted, the settling of a location fetch (of the
  mount, of a poll, of a stop), of a route fetch or of a suggestion fetch changes no
  cell of the component: the state with the pending flag of the location request and
  the console put back is the state before.
\<close>

theorem settled_after_unmount:
  assumes "\<not> isMounted s" and "settles e"
  shows "(apply_event e s)
           \<lparr>isLocationRequestPending := isLocationRequestPending s, console := console s\<rparr> = s"
proof (cases e)
  case (LocationSettled p)
  with assms(1) show ?thesis
    by (simp add: split_beta getCurrentLocation_then_unmounted getCurrentPositionSafe_then_refs)
next
  case (StopSettled p)
  with assms(1) show ?thesis
    by (simp add: split_beta stopNavigation_then_unmounted getCurrentPositionSafe_then_refs)
next
  case (TickSettled p)
  with assms(1) show ?thesis
    by (simp add: split_beta tick_then_unmounted getCurrentPositionSafe_then_refs)
next
  case (StaleTickSettled r p)
  with assms(1) show ?thesis
    by (simp add: split_beta tick_then_unmounted getCurrentPositionSafe_then_refs)
next
  case (RouteSettled nav a b response)
  with fetchRoute_then_unmounted [OF assms(1), of nav a b response] show ?thesis
    by simp
next
  case (SuggestionsSettled response)
  with fetchSuggestions_then_unmounted [OF assms(1), of response] show ?thesis
    by simp
qed (insert assms(2), simp_all)

theorem settled_after_unmount_witness:
  "\<not> isMounted (apply_event Unmount underway) \<and> settles (TickSettled (Fix 0 0 0)) \<and>
   (apply_event (TickSettled (Fix 0 0 0)) (apply_event Unmount underway))
     \<lparr>isLocationRequestPending := isLocationRequestPending (apply_event Unmount underway),
      console := console (apply_event Unmount underway)\<rparr> = apply_event Unmount underway"
proof -
  have u: "\<not> isMounted (apply_event Unmount underway)"
    by (simp add: unmountCleanup_def Let_def split: option.splits)
  have t: "settles (TickSettled (Fix 0 0 0))"
    by simp
  from settled_after_unmount [OF u t] u t
  show ?thesis
    by simp
qed

subsection \<open>Starting without endpoints\<close>

text \<open>
  Claim C10. When the current location or the destination is \<^verbatim>\<open>null\<close>,
  \<^verbatim>\<open>startNavigation\<close> returns the state it was given: the flag, the index, the camera
  and the timer are as before.
\<close>

theorem startNavigation_without_endpoints:
  "currentLocation s = None \<or> destination s = None \<Longrightarrow> startNavigation s = s"
  by (auto simp: startNavigation_def split: option.splits)

theorem startNavigation_without_endpoints_witness:
  "(currentLocation listed = None \<or> destination listed = None) \<and>
   startNavigation listed = listed"
proof -
  have h: "currentLocation listed = None \<or> destination listed = None"
    by (simp add: listed_eq initial_def)
  from startNavigation_without_endpoints [OF h] h
  show ?thesis
    by simp
qed

lemma startNavigation2_without_endpoints:
  "currentLocation2 s = None \<or> destination2 s = None \<Longrightarrow> startNavigation2 s = s"
  by (auto simp: startNavigation2_def)


end
